theory Spec2Isabelle
  imports Main "HOL-Library.Word"
begin

section \<open>Webhook notification channel (src/webhook.py)\<close>

text \<open>
  The module formats a report content object into a JSON envelope and delivers it with one
  HTTP POST. Its two parts are the formatter (\<open>_get_content\<close>, \<open>_get_subject\<close>,
  \<open>_error_template\<close>) and the dispatcher (\<open>_get_to\<close>, \<open>send\<close>). Python's leading
  underscores are dropped from the names; everything else keeps the name of the source.

  Strings are lists of 8-bit characters, so a Python \<open>str\<close> is modelled up to code point 255.
\<close>

subsection \<open>Python values and exceptions\<close>

type_synonym byte = "8 word"

text \<open>The values that the module passes to \<open>json.dumps\<close>: \<open>None\<close>, \<open>str\<close>, \<open>bytes\<close>,
  lists and dictionaries (insertion ordered, hence association lists).\<close>

datatype pyval =
    PNone
  | PStr string
  | PBytes "byte list"
  | PList "pyval list"
  | PDict "(string \<times> pyval) list"

text \<open>The values that \<open>json.loads\<close> returns; an object is given by its items, whose keys
  are distinct, a number by an integer or by the literal of a float.\<close>

datatype json =
    JNull
  | JBool bool
  | JInt int
  | JFloat string
  | JString string
  | JArray "json list"
  | JObject "(string \<times> json) list"

text \<open>\<open>SupersetError\<close>: only its \<open>message\<close> is read by this module.\<close>

record superset_error =
  message :: string
  error_type :: string

text \<open>
  An exception is either the aggregated-errors fault \<open>SupersetErrorsException\<close>, which carries
  its list of errors, or any other exception, given by its class and by the text that
  \<open>str(ex)\<close> returns for it.
\<close>

datatype exn_class =
    JSONDecodeError
  | KeyError
  | TypeError
  | ValueError
  | HTTPError
  | RequestException
  | NotificationError

datatype exn =
    SupersetErrorsException "superset_error list"
  | PyException exn_class string

fun is_NotificationError :: "exn \<Rightarrow> bool" where
  "is_NotificationError (PyException c m) = (c = NotificationError)"
| "is_NotificationError (SupersetErrorsException errors) = False"

text \<open>Truthiness of an optional sequence (\<open>if x:\<close>) and the idiom \<open>x or ""\<close>.\<close>

fun truthy :: "'a list option \<Rightarrow> bool" where
  "truthy None = False"
| "truthy (Some xs) = (xs \<noteq> [])"

fun or_empty :: "'a list option \<Rightarrow> 'a list" where
  "or_empty None = []"
| "or_empty (Some xs) = xs"

subsection \<open>The data model\<close>

text \<open>
  Modelled from the spec: the class of \<open>self._content\<close> (\<open>NotificationContent\<close>) is imported,
  not declared in the module. Its fields and their types are those of the spec's inbound
  interface: \<open>text\<close> (error string, optional), \<open>description\<close> (string, optional), \<open>url\<close>
  (string), \<open>screenshots\<close> (sequence of byte buffers, optional), \<open>csv\<close> (byte buffer,
  optional), \<open>name\<close> (string), \<open>headerData\<close> (opaque, optional).
\<close>

record 'h report_content =
  name :: string
  headerData :: "'h option"
  csv :: "byte list option"
  screenshots :: "byte list list option"
  "text" :: "string option"
  description :: "string option"
  url :: string

text \<open>The dataclass \<open>WebhookContent\<close>. Its \<open>body\<close> is annotated \<open>str\<close> but also receives a
  dictionary, so it is a Python value here.\<close>

record 'h webhook_content =
  body :: pyval
  header_data :: "'h option"
  data :: "(string \<times> pyval) list option"
  images :: "string list option"

text \<open>\<open>self._recipient\<close>: only \<open>recipient_config_json\<close> is read.\<close>

record recipient =
  recipient_config_json :: string

subsection \<open>base64.b64encode\<close>

definition b64char :: "nat \<Rightarrow> char" where
  "b64char n =
     (if n < 26 then char_of (65 + n)
      else if n < 52 then char_of (71 + n)
      else if n < 62 then char_of (n - 4)
      else if n = 62 then CHR ''+''
      else CHR ''/'')"

text \<open>Three bytes make a 24-bit group that is cut into four 6-bit digits; a last group of one
  or two bytes is padded with zero bits and \<open>=\<close>.\<close>

fun b64encode :: "byte list \<Rightarrow> string" where
  "b64encode [] = []"
| "b64encode [a] =
     (let n = unat a * 65536
      in [b64char (n div 262144), b64char (n div 4096 mod 64), CHR ''='', CHR ''=''])"
| "b64encode [a, b] =
     (let n = unat a * 65536 + unat b * 256
      in [b64char (n div 262144), b64char (n div 4096 mod 64), b64char (n div 64 mod 64),
          CHR ''=''])"
| "b64encode (a # b # c # rest) =
     (let n = unat a * 65536 + unat b * 256 + unat c
      in [b64char (n div 262144), b64char (n div 4096 mod 64), b64char (n div 64 mod 64),
          b64char (n mod 64)] @ b64encode rest)"

text \<open>The inverse, \<open>base64.b64decode\<close> on padded input; \<open>None\<close> is \<open>binascii.Error\<close>.\<close>

definition b64val :: "char \<Rightarrow> nat option" where
  "b64val ch =
     (let k = (of_char ch :: nat)
      in if 65 \<le> k \<and> k \<le> 90 then Some (k - 65)
         else if 97 \<le> k \<and> k \<le> 122 then Some (k - 71)
         else if 48 \<le> k \<and> k \<le> 57 then Some (k + 4)
         else if ch = CHR ''+'' then Some 62
         else if ch = CHR ''/'' then Some 63
         else None)"

fun b64decode :: "string \<Rightarrow> byte list option" where
  "b64decode [] = Some []"
| "b64decode (c1 # c2 # c3 # c4 # rest) =
     (case (b64val c1, b64val c2) of
        (Some v1, Some v2) \<Rightarrow>
          if c3 = CHR ''='' \<and> c4 = CHR ''='' then
            (if rest = [] then Some [word_of_nat ((v1 * 64 + v2) div 16)] else None)
          else
            (case b64val c3 of
               None \<Rightarrow> None
             | Some v3 \<Rightarrow>
                 if c4 = CHR ''='' then
                   (if rest = [] then
                      Some [word_of_nat (((v1 * 64 + v2) * 64 + v3) div 1024),
                            word_of_nat (((v1 * 64 + v2) * 64 + v3) div 4 mod 256)]
                    else None)
                 else
                   (case b64val c4 of
                      None \<Rightarrow> None
                    | Some v4 \<Rightarrow>
                        (case b64decode rest of
                           None \<Rightarrow> None
                         | Some bs \<Rightarrow>
                             Some (word_of_nat ((((v1 * 64 + v2) * 64 + v3) * 64 + v4) div 65536)
                                   # word_of_nat ((((v1 * 64 + v2) * 64 + v3) * 64 + v4) div 256 mod 256)
                                   # word_of_nat ((((v1 * 64 + v2) * 64 + v3) * 64 + v4) mod 256)
                                   # bs))))
      | _ \<Rightarrow> None)"
| "b64decode cs = None"

subsection \<open>The localisation function\<close>

text \<open>
  \<open>__(template, **variables)\<close> looks the template up in the message catalogue and, when
  variables are given, applies Python's \<open>%\<close> operator with the mapping of the variables. The
  catalogue is the empty one (no translation is installed, every template stands for itself).
  Of the \<open>%\<close> directives the module's templates use \<open>%(key)s\<close> only; \<open>%%\<close> is modelled
  as well, every other directive is outside the model and rejected with a \<open>ValueError\<close>. A
  key that the mapping lacks is a \<open>KeyError\<close>.
  The scanner reads the template left to right and is in one of four modes.
\<close>

datatype fmt_mode = Literal | Percent | Key string | Conv string

fun percent_format :: "(string \<times> string) list \<Rightarrow> fmt_mode \<Rightarrow> string \<Rightarrow> exn + string" where
  "percent_format vs Literal [] = Inr []"
| "percent_format vs Literal (c # cs) =
     (if c = CHR ''%'' then percent_format vs Percent cs
      else (case percent_format vs Literal cs of
              Inl e \<Rightarrow> Inl e
            | Inr out \<Rightarrow> Inr (c # out)))"
| "percent_format vs Percent [] = Inl (PyException ValueError ''incomplete format'')"
| "percent_format vs Percent (c # cs) =
     (if c = CHR ''%'' then
        (case percent_format vs Literal cs of
           Inl e \<Rightarrow> Inl e
         | Inr out \<Rightarrow> Inr (CHR ''%'' # out))
      else if c = CHR ''('' then percent_format vs (Key []) cs
      else Inl (PyException ValueError ''unsupported format character''))"
| "percent_format vs (Key k) [] = Inl (PyException ValueError ''incomplete format key'')"
| "percent_format vs (Key k) (c # cs) =
     (if c = CHR '')'' then percent_format vs (Conv k) cs
      else percent_format vs (Key (k @ [c])) cs)"
| "percent_format vs (Conv k) [] = Inl (PyException ValueError ''incomplete format'')"
| "percent_format vs (Conv k) (c # cs) =
     (if c = CHR ''s'' then
        (case map_of vs k of
           None \<Rightarrow> Inl (PyException KeyError ([CHR 0x27] @ k @ [CHR 0x27]))
         | Some v \<Rightarrow>
             (case percent_format vs Literal cs of
                Inl e \<Rightarrow> Inl e
              | Inr out \<Rightarrow> Inr (v @ out)))
      else Inl (PyException ValueError ''unsupported format character''))"

definition gettext :: "string \<Rightarrow> (string \<times> string) list \<Rightarrow> exn + string" where
  "gettext template variables =
     (if variables = [] then Inr template else percent_format variables Literal template)"

subsection \<open>The formatter\<close>

text \<open>The environment of the module: the library functions whose results it only passes on.
  \<open>json_loads\<close> is \<open>json.loads\<close> (\<open>Inl msg\<close> is a \<open>JSONDecodeError\<close> with that text),
  \<open>nh3_clean\<close> is \<open>nh3.clean\<close> with its default arguments, \<open>requests_post\<close> is the HTTP
  client, which answers a request with a response or raises.\<close>

record request =
  req_url :: json
  req_headers :: "(string \<times> string) list"
  req_data :: string
  req_timeout :: nat

record response =
  status_code :: nat
  reason :: string
  resp_url :: string

record env =
  json_loads :: "string \<Rightarrow> string + json"
  nh3_clean :: "string \<Rightarrow> string"
  requests_post :: "request \<Rightarrow> exn + response"

definition error_template_msgid :: string where
  \<open>error_template_msgid =
     ''\<newline>            Your report/alert was unable to be generated because of the following error: %(text)s\<newline>            Please check your dashboard/chart for errors.\<newline>            "%(url)s"\<newline>            ''\<close>

definition error_template :: "'h report_content \<Rightarrow> string \<Rightarrow> exn + string" where
  "error_template c t = gettext error_template_msgid [(''text'', t), (''url'', url c)]"

definition get_content :: "env \<Rightarrow> 'h report_content \<Rightarrow> exn + 'h webhook_content" where
  "get_content e c =
     (if truthy (text c) then
        (case error_template c (or_empty (text c)) of
           Inl ex \<Rightarrow> Inl ex
         | Inr b \<Rightarrow> Inr \<lparr>body = PStr b, header_data = None, data = None, images = None\<rparr>)
      else
        let imgs = (if truthy (screenshots c) then map b64encode (or_empty (screenshots c))
                    else []);
            descr = nh3_clean e (or_empty (description c));
            b = PDict [(''description'', PStr descr), (''url'', PStr (url c))]
        in (case (if truthy (csv c) then
                    (case gettext ''%(name)s.csv'' [(''name'', name c)] of
                       Inl ex \<Rightarrow> Inl ex
                     | Inr fname \<Rightarrow> Inr (Some [(fname, PBytes (or_empty (csv c)))]))
                  else Inr None) of
              Inl ex \<Rightarrow> Inl ex
            | Inr csv_data \<Rightarrow>
                Inr \<lparr>body = b, header_data = headerData c, data = csv_data,
                     images = Some imgs\<rparr>))"

definition get_subject :: "'h report_content \<Rightarrow> exn + string" where
  "get_subject c = gettext ''%(title)s'' [(''title'', name c)]"

subsection \<open>json.dumps\<close>

text \<open>
  The default encoder: separators \<open>", "\<close> and \<open>": "\<close>, \<open>ensure_ascii\<close> on. In a string the
  quote, the backslash and the control characters with a short form are escaped by a
  backslash, every other character outside the range from space to tilde as \<open>\u00XX\<close>.
  A \<open>bytes\<close> object is not serialisable: the encoder raises \<open>TypeError\<close>, at the first
  such value it meets.
\<close>

definition hex_digit :: "nat \<Rightarrow> char" where
  "hex_digit n = (if n < 10 then char_of (48 + n) else char_of (87 + n))"

definition escape_char :: "char \<Rightarrow> string" where
  "escape_char c =
     (if c = CHR 0x22 then [CHR 0x5C, CHR 0x22]
      else if c = CHR 0x5C then [CHR 0x5C, CHR 0x5C]
      else if c = CHR 0x0A then [CHR 0x5C, CHR ''n'']
      else if c = CHR 0x0D then [CHR 0x5C, CHR ''r'']
      else if c = CHR 0x09 then [CHR 0x5C, CHR ''t'']
      else if c = CHR 0x08 then [CHR 0x5C, CHR ''b'']
      else if c = CHR 0x0C then [CHR 0x5C, CHR ''f'']
      else if (of_char c :: nat) < 32 \<or> 126 < (of_char c :: nat) then
        [CHR 0x5C, CHR ''u'', CHR ''0'', CHR ''0'',
         hex_digit (of_char c div 16), hex_digit (of_char c mod 16)]
      else [c])"

definition encode_str :: "string \<Rightarrow> string" where
  "encode_str s = [CHR 0x22] @ concat (map escape_char s) @ [CHR 0x22]"

text \<open>\<open>sep.join(xs)\<close>.\<close>

fun join :: "string \<Rightarrow> string list \<Rightarrow> string" where
  "join sep [] = []"
| "join sep [x] = x"
| "join sep (x # y # ys) = x @ sep @ join sep (y # ys)"

fun json_dumps :: "pyval \<Rightarrow> exn + string"
  and dumps_list :: "pyval list \<Rightarrow> exn + string list"
  and dumps_items :: "(string \<times> pyval) list \<Rightarrow> exn + string list" where
  "json_dumps PNone = Inr ''null''"
| "json_dumps (PStr s) = Inr (encode_str s)"
| "json_dumps (PBytes bs) =
     Inl (PyException TypeError ''Object of type bytes is not JSON serializable'')"
| "json_dumps (PList xs) =
     (case dumps_list xs of
        Inl ex \<Rightarrow> Inl ex
      | Inr parts \<Rightarrow> Inr (''['' @ join '', '' parts @ '']''))"
| "json_dumps (PDict kvs) =
     (case dumps_items kvs of
        Inl ex \<Rightarrow> Inl ex
      | Inr parts \<Rightarrow> Inr (''{'' @ join '', '' parts @ ''}''))"
| "dumps_list [] = Inr []"
| "dumps_list (x # xs) =
     (case json_dumps x of
        Inl ex \<Rightarrow> Inl ex
      | Inr s \<Rightarrow> (case dumps_list xs of Inl ex \<Rightarrow> Inl ex | Inr ss \<Rightarrow> Inr (s # ss)))"
| "dumps_items [] = Inr []"
| "dumps_items (kv # kvs) =
     (case json_dumps (snd kv) of
        Inl ex \<Rightarrow> Inl ex
      | Inr s \<Rightarrow>
          (case dumps_items kvs of
             Inl ex \<Rightarrow> Inl ex
           | Inr ss \<Rightarrow> Inr ((encode_str (fst kv) @ '': '' @ s) # ss)))"

subsection \<open>The dispatcher\<close>

text \<open>\<open>value["target"]\<close> on what \<open>json.loads\<close> returned: only a dictionary that has the key
  answers; a missing key is a \<open>KeyError\<close>, every other value a \<open>TypeError\<close>.\<close>

fun subscript :: "json \<Rightarrow> string \<Rightarrow> exn + json" where
  "subscript (JObject kvs) k =
     (case map_of kvs k of
        None \<Rightarrow> Inl (PyException KeyError ([CHR 0x27] @ k @ [CHR 0x27]))
      | Some v \<Rightarrow> Inr v)"
| "subscript (JArray xs) k =
     Inl (PyException TypeError ''list indices must be integers or slices, not str'')"
| "subscript (JString s) k =
     Inl (PyException TypeError ''string indices must be integers'')"
| "subscript JNull k =
     Inl (PyException TypeError ([CHR 0x27] @ ''NoneType'' @ [CHR 0x27] @ '' object is not subscriptable''))"
| "subscript (JBool b) k =
     Inl (PyException TypeError ([CHR 0x27] @ ''bool'' @ [CHR 0x27] @ '' object is not subscriptable''))"
| "subscript (JInt i) k =
     Inl (PyException TypeError ([CHR 0x27] @ ''int'' @ [CHR 0x27] @ '' object is not subscriptable''))"
| "subscript (JFloat f) k =
     Inl (PyException TypeError ([CHR 0x27] @ ''float'' @ [CHR 0x27] @ '' object is not subscriptable''))"

definition get_to :: "env \<Rightarrow> recipient \<Rightarrow> exn + json" where
  "get_to e r =
     (case json_loads e (recipient_config_json r) of
        Inl msg \<Rightarrow> Inl (PyException JSONDecodeError msg)
      | Inr v \<Rightarrow> subscript v ''target'')"

text \<open>\<open>Response.raise_for_status\<close> of the HTTP client: it raises \<open>HTTPError\<close> for the status
  codes 400 to 599 and returns for every other code.\<close>

fun dec_nat :: "nat \<Rightarrow> string" where
  "dec_nat n =
     (if n < 10 then [char_of (48 + n)] else dec_nat (n div 10) @ [char_of (48 + n mod 10)])"

declare dec_nat.simps [simp del]

definition raise_for_status :: "response \<Rightarrow> exn + unit" where
  "raise_for_status r =
     (if 400 \<le> status_code r \<and> status_code r < 500 then
        Inl (PyException HTTPError
               (dec_nat (status_code r) @ '' Client Error: '' @ reason r @ '' for url: '' @ resp_url r))
      else if 500 \<le> status_code r \<and> status_code r < 600 then
        Inl (PyException HTTPError
               (dec_nat (status_code r) @ '' Server Error: '' @ reason r @ '' for url: '' @ resp_url r))
      else Inr ())"

text \<open>The two \<open>except\<close> clauses of \<open>send\<close>, in their order.\<close>

fun handle :: "exn \<Rightarrow> exn" where
  "handle (SupersetErrorsException errors) =
     PyException NotificationError (join '';'' (map message errors))"
| "handle (PyException c msg) = PyException NotificationError msg"

text \<open>What \<open>send\<close> does to the world, in order: the POST requests it issues and the
  records it logs (header data, destination, status code).\<close>

datatype 'h event =
    Post request
  | Log "'h option" json nat

fun is_Post :: "'h event \<Rightarrow> bool" where
  "is_Post (Post r) = True"
| "is_Post (Log h u s) = False"

definition opt_dict :: "(string \<times> pyval) list option \<Rightarrow> pyval" where
  "opt_dict d = (case d of None \<Rightarrow> PNone | Some kvs \<Rightarrow> PDict kvs)"

definition opt_strs :: "string list option \<Rightarrow> pyval" where
  "opt_strs xs = (case xs of None \<Rightarrow> PNone | Some ss \<Rightarrow> PList (map PStr ss))"

definition payload :: "string \<Rightarrow> 'h webhook_content \<Rightarrow> pyval" where
  "payload subject content =
     PDict [(''subject'', PStr subject),
            (''content'', PDict [(''body'', body content),
                                 (''data'', opt_dict (data content)),
                                 (''images'', opt_strs (images content))])]"

text \<open>
  \<open>send\<close> returns the exception it raises (\<open>Inl\<close>) or nothing, together with its events.
  The three calls before \<open>try\<close> are outside the handlers; \<open>json.dumps\<close> is an argument of
  \<open>requests.post\<close> and so is evaluated inside \<open>try\<close>, before the request is made. The
  decorator \<open>statsd_gauge\<close> re-raises what \<open>send\<close> raises and is left out.
\<close>

definition send :: "env \<Rightarrow> 'h report_content \<Rightarrow> recipient \<Rightarrow> (exn + unit) \<times> 'h event list" where
  "send e c r =
     (case get_subject c of
        Inl ex \<Rightarrow> (Inl ex, [])
      | Inr subject \<Rightarrow>
     (case get_content e c of
        Inl ex \<Rightarrow> (Inl ex, [])
      | Inr content \<Rightarrow>
     (case get_to e r of
        Inl ex \<Rightarrow> (Inl ex, [])
      | Inr to \<Rightarrow>
     (case json_dumps (payload subject content) of
        Inl ex \<Rightarrow> (Inl (handle ex), [])
      | Inr s \<Rightarrow>
          let req = \<lparr>req_url = to, req_headers = [], req_data = s, req_timeout = 30\<rparr>
          in (case requests_post e req of
                Inl ex \<Rightarrow> (Inl (handle ex), [Post req])
              | Inr resp \<Rightarrow>
                  (case raise_for_status resp of
                     Inl ex \<Rightarrow> (Inl (handle ex), [Post req])
                   | Inr u \<Rightarrow>
                       (Inr (), [Post req, Log (header_data content) to (status_code resp)])))))))"

text \<open>The requests and the log records among the events, in order.\<close>

fun posts :: "'h event list \<Rightarrow> request list" where
  "posts [] = []"
| "posts (Post r # es) = r # posts es"
| "posts (Log h u s # es) = posts es"

fun logs :: "'h event list \<Rightarrow> ('h option \<times> json \<times> nat) list" where
  "logs [] = []"
| "logs (Post r # es) = logs es"
| "logs (Log h u s # es) = (h, u, s) # logs es"

subsection \<open>Example inputs\<close>

text \<open>
  Concrete inputs for the examples below. \<open>example_loads\<close> stands for \<open>json.loads\<close> on the
  documents that the examples use: the configuration with a target, the empty object, and
  text that is not JSON (which it rejects with the parser's message for \<open>not json\<close>).
  The sanitiser of the examples returns its input, as \<open>nh3.clean\<close> does on text without
  markup characters; the examples use such descriptions only. \<open>respond\<close> is an endpoint
  that answers every request with the given status, \<open>raise_errors\<close> one whose call raises
  the aggregated-errors fault.
\<close>

definition example_loads :: "string \<Rightarrow> string + json" where
  \<open>example_loads s =
     (if s = ''{"target": "https://example.com/hook"}'' then
        Inr (JObject [(''target'', JString ''https://example.com/hook'')])
      else if s = ''{}'' then Inr (JObject [])
      else Inl ''Expecting value: line 1 column 1 (char 0)'')\<close>

definition respond :: "nat \<Rightarrow> string \<Rightarrow> request \<Rightarrow> exn + response" where
  "respond code phrase req =
     Inr \<lparr>status_code = code, reason = phrase, resp_url = ''https://example.com/hook''\<rparr>"

definition raise_errors :: "superset_error list \<Rightarrow> request \<Rightarrow> exn + response" where
  "raise_errors errors req = Inl (SupersetErrorsException errors)"

definition example_env :: "(request \<Rightarrow> exn + response) \<Rightarrow> env" where
  "example_env post =
     \<lparr>json_loads = example_loads, nh3_clean = (\<lambda>s. s), requests_post = post\<rparr>"

definition example_content :: "string report_content" where
  "example_content =
     \<lparr>name = ''Q1 Sales'', headerData = Some ''notification_source: Alert'', csv = None,
      screenshots = Some [ [77, 97, 110], [77] ], text = None,
      description = Some ''weekly numbers'', url = ''https://bi.example.com/d/1''\<rparr>"

definition example_recipient :: recipient where
  \<open>example_recipient =
     \<lparr>recipient_config_json = ''{"target": "https://example.com/hook"}''\<rparr>\<close>

definition example_errors :: "superset_error list" where
  "example_errors =
     [\<lparr>message = ''A failed'', error_type = ''GENERIC_DB_ENGINE_ERROR''\<rparr>,
      \<lparr>message = ''B failed'', error_type = ''GENERIC_BACKEND_ERROR''\<rparr>]"

definition example_wire :: string where
  \<open>example_wire =
     ''{"subject": "Q1 Sales", "content": {"body": {"description": "weekly numbers", "url": "https://bi.example.com/d/1"}, "data": null, "images": ["TWFu", "TQ=="]}}''\<close>

definition example_request :: request where
  "example_request =
     \<lparr>req_url = JString ''https://example.com/hook'', req_headers = [],
      req_data = example_wire, req_timeout = 30\<rparr>"

section \<open>Properties\<close>

subsection \<open>Base64 decoding inverts the encoding\<close>

lemma b64val_b64char: "n < 64 \<Longrightarrow> b64val (b64char n) = Some n"
  by (auto simp add: b64val_def b64char_def Let_def)

lemma b64char_not_pad: "n < 64 \<Longrightarrow> b64char n \<noteq> CHR ''=''"
proof
  assume n: "n < 64" and eq: "b64char n = CHR ''=''"
  from eq have "b64val (b64char n) = b64val (CHR ''='')" by simp
  with n show False by (simp add: b64val_b64char) (simp add: b64val_def)
qed

lemma unat_byte_less: "unat (a :: byte) < 256"
  using unsigned_less [of a, where ?'a = nat] by simp

lemma byte_of_unat: "word_of_nat (unat (a :: byte)) = a"
  by simp



lemma recombine: "n div (k * 64) * 64 + n div k mod 64 = (n div k :: nat)"
  by (simp add: div_mult2_eq)

lemma digits3:
  "((n div 262144 * 64 + n div 4096 mod 64) * 64 + n div 64 mod 64) * 64 + n mod 64 = (n::nat)"
proof -
  have "n div 262144 * 64 + n div 4096 mod 64 = n div 4096"
    using recombine [of n 4096] by simp
  moreover have "n div 4096 * 64 + n div 64 mod 64 = n div 64"
    using recombine [of n 64] by simp
  ultimately show ?thesis by simp
qed

lemma digits2:
  "(n div 262144 * 64 + n div 4096 mod 64) * 64 + n div 64 mod 64 = (n::nat) div 64"
proof -
  have "n div 262144 * 64 + n div 4096 mod 64 = n div 4096"
    using recombine [of n 4096] by simp
  moreover have "n div 4096 * 64 + n div 64 mod 64 = n div 64"
    using recombine [of n 64] by simp
  ultimately show ?thesis by simp
qed

lemma digits1: "n div 262144 * 64 + n div 4096 mod 64 = (n::nat) div 4096"
  using recombine [of n 4096] by simp

lemma base_div: "z < b \<Longrightarrow> (q * b + z) div b = (q::nat)"
  by simp

lemma base_mod: "z < b \<Longrightarrow> (q * b + z) mod b = (z::nat)"
  by simp

lemma bytes3:
  fixes x y z :: nat
  assumes "y < 256" "z < 256"
  shows "(x * 65536 + y * 256 + z) div 65536 = x"
    and "(x * 65536 + y * 256 + z) div 256 mod 256 = y"
    and "(x * 65536 + y * 256 + z) mod 256 = z"
proof -
  have e: "x * 65536 + y * 256 + z = (x * 256 + y) * 256 + z" by simp
  have d: "(x * 65536 + y * 256 + z) div 256 = x * 256 + y"
    using base_div [OF assms(2), of "x * 256 + y"] by (simp only: e)
  show "(x * 65536 + y * 256 + z) mod 256 = z"
    using base_mod [OF assms(2), of "x * 256 + y"] by (simp only: e)
  show "(x * 65536 + y * 256 + z) div 256 mod 256 = y"
    using base_mod [OF assms(1), of x] by (simp only: d)
  have "(x * 65536 + y * 256 + z) div 65536 = (x * 65536 + y * 256 + z) div 256 div 256"
    by (simp add: div_mult2_eq [symmetric])
  also have "\<dots> = x"
    using base_div [OF assms(1), of x] by (simp only: d)
  finally show "(x * 65536 + y * 256 + z) div 65536 = x" .
qed

lemma bytes2:
  fixes x y :: nat
  assumes "y < 256"
  shows "(x * 65536 + y * 256) div 64 div 1024 = x"
    and "(x * 65536 + y * 256) div 64 div 4 mod 256 = y"
proof -
  have a: "(x * 65536 + y * 256) div 64 div 4 = (x * 65536 + y * 256) div 256"
    by (simp add: div_mult2_eq [symmetric])
  have b: "(x * 65536 + y * 256) div 64 div 1024 = (x * 65536 + y * 256) div 65536"
    by (simp add: div_mult2_eq [symmetric])
  show "(x * 65536 + y * 256) div 64 div 1024 = x"
    unfolding b using bytes3(1) [of y 0 x] assms by simp
  show "(x * 65536 + y * 256) div 64 div 4 mod 256 = y"
    unfolding a using bytes3(2) [of y 0 x] assms by simp
qed

lemma bytes1: "(x * 65536) div 4096 div 16 = (x::nat)"
  by (simp add: div_mult2_eq [symmetric])


lemma top_digit: "n < 16777216 \<Longrightarrow> n div 262144 < (64::nat)"
  by (simp add: less_mult_imp_div_less)

lemma group_bound3: "unat (a::byte) * 65536 + unat (b::byte) * 256 + unat (c::byte) < 16777216"
  using unat_byte_less [of a] unat_byte_less [of b] unat_byte_less [of c] by linarith

lemma group_bound2: "unat (a::byte) * 65536 + unat (b::byte) * 256 < 16777216"
  using unat_byte_less [of a] unat_byte_less [of b] by linarith

lemma group_bound1: "unat (a::byte) * 65536 < 16777216"
  using unat_byte_less [of a] by linarith

lemma b64decode_group1: "b64decode (b64encode [a]) = Some [a]"
proof -
  define n where "n = unat a * 65536"
  have d1: "n div 262144 < 64" unfolding n_def by (rule top_digit [OF group_bound1])
  have d2: "n div 4096 mod 64 < 64" by simp
  have "word_of_nat ((n div 262144 * 64 + n div 4096 mod 64) div 16) = a"
    unfolding digits1 n_def bytes1 by simp
  then show ?thesis
    using d1 d2 by (simp add: Let_def b64val_b64char n_def [symmetric])
qed

lemma b64decode_group2: "b64decode (b64encode [a, b]) = Some [a, b]"
proof -
  define n where "n = unat a * 65536 + unat b * 256"
  have d1: "n div 262144 < 64" unfolding n_def by (rule top_digit [OF group_bound2])
  have d2: "n div 4096 mod 64 < 64" and d3: "n div 64 mod 64 < 64" by simp_all
  have x: "word_of_nat (((n div 262144 * 64 + n div 4096 mod 64) * 64 + n div 64 mod 64) div 1024) = a"
    unfolding digits2 n_def using bytes2(1) [where x = "unat a" and y = "unat b"] unat_byte_less [of b] by simp
  have y: "word_of_nat (((n div 262144 * 64 + n div 4096 mod 64) * 64 + n div 64 mod 64) div 4 mod 256) = b"
    unfolding digits2 n_def using bytes2(2) [where x = "unat a" and y = "unat b"] unat_byte_less [of b] by simp
  show ?thesis
    using d1 d2 d3 x y
    by (simp add: Let_def b64val_b64char b64char_not_pad n_def [symmetric])
qed

lemma b64decode_quad:
  assumes "d1 < 64" "d2 < 64" "d3 < 64" "d4 < 64"
  shows "b64decode (b64char d1 # b64char d2 # b64char d3 # b64char d4 # r) =
     (case b64decode r of
        None \<Rightarrow> None
      | Some bs \<Rightarrow>
          Some (word_of_nat ((((d1 * 64 + d2) * 64 + d3) * 64 + d4) div 65536)
                # word_of_nat ((((d1 * 64 + d2) * 64 + d3) * 64 + d4) div 256 mod 256)
                # word_of_nat ((((d1 * 64 + d2) * 64 + d3) * 64 + d4) mod 256)
                # bs))"
  using assms by (simp add: b64val_b64char b64char_not_pad)

lemma b64decode_group3:
  "b64decode (b64encode (a # b # c # rest)) =
     (case b64decode (b64encode rest) of None \<Rightarrow> None | Some bs \<Rightarrow> Some (a # b # c # bs))"
proof -
  define n where "n = unat a * 65536 + unat b * 256 + unat c"
  have d1: "n div 262144 < 64" unfolding n_def by (rule top_digit [OF group_bound3])
  have d2: "n div 4096 mod 64 < 64" and d3: "n div 64 mod 64 < 64" and d4: "n mod 64 < 64"
    by simp_all
  have x: "word_of_nat (n div 65536) = a"
    unfolding n_def using bytes3(1) [where x = "unat a" and y = "unat b" and z = "unat c"]
      unat_byte_less [of b] unat_byte_less [of c] by simp
  have y: "word_of_nat (n div 256 mod 256) = b"
    unfolding n_def using bytes3(2) [where x = "unat a" and y = "unat b" and z = "unat c"]
      unat_byte_less [of b] unat_byte_less [of c] by simp
  have z: "word_of_nat (n mod 256) = c"
    unfolding n_def using bytes3(3) [where x = "unat a" and y = "unat b" and z = "unat c"]
      unat_byte_less [of b] unat_byte_less [of c] by simp
  have enc: "b64encode (a # b # c # rest) =
      b64char (n div 262144) # b64char (n div 4096 mod 64) # b64char (n div 64 mod 64)
        # b64char (n mod 64) # b64encode rest"
    by (simp add: Let_def n_def)
  show ?thesis
    unfolding enc b64decode_quad [OF d1 d2 d3 d4] digits3 x y z ..
qed

lemma b64decode_b64encode: "b64decode (b64encode bs) = Some bs"
proof (induction bs rule: b64encode.induct)
  case 1
  show ?case by simp
next
  case (2 a)
  show ?case by (rule b64decode_group1)
next
  case (3 a b)
  show ?case by (rule b64decode_group2)
next
  case (4 a b c rest)
  then show ?case by (simp only: b64decode_group3 option.case)
qed

subsection \<open>The formatter never fails\<close>

lemma get_subject_name: "get_subject c = Inr (name c)"
  by (simp add: get_subject_def gettext_def)

lemma csv_filename: "gettext ''%(name)s.csv'' [(''name'', n)] = Inr (n @ ''.csv'')"
  by (simp add: gettext_def)

lemma error_template_closed:
  \<open>error_template c t =
     Inr (''\<newline>            Your report/alert was unable to be generated because of the following error: ''
          @ t @ ''\<newline>            Please check your dashboard/chart for errors.\<newline>            "''
          @ url c @ ''"\<newline>            '')\<close>
  by (simp add: error_template_def error_template_msgid_def gettext_def)

lemma get_content_error_path:
  assumes "truthy (text c)"
  shows \<open>get_content e c =
     Inr \<lparr>body = PStr (''\<newline>            Your report/alert was unable to be generated because of the following error: ''
          @ or_empty (text c) @ ''\<newline>            Please check your dashboard/chart for errors.\<newline>            "''
          @ url c @ ''"\<newline>            ''),
         header_data = None, data = None, images = None\<rparr>\<close>
  using assms by (simp add: get_content_def error_template_closed)

lemma get_content_normal_path:
  assumes "\<not> truthy (text c)"
  shows "get_content e c =
     Inr \<lparr>body = PDict [(''description'', PStr (nh3_clean e (or_empty (description c)))),
                        (''url'', PStr (url c))],
         header_data = headerData c,
         data = (if truthy (csv c) then Some [(name c @ ''.csv'', PBytes (or_empty (csv c)))]
                 else None),
         images = Some (map b64encode (or_empty (screenshots c)))\<rparr>"
proof -
  have "(if truthy (screenshots c) then map b64encode (or_empty (screenshots c)) else [])
        = map b64encode (or_empty (screenshots c))"
    by (cases "screenshots c") auto
  then show ?thesis
    using assms by (simp add: get_content_def csv_filename Let_def)
qed

lemma get_content_total: "\<exists>w. get_content e c = Inr w"
  by (cases "truthy (text c)") (simp_all add: get_content_error_path get_content_normal_path)

lemma get_content_headerData:
  "get_content e (c\<lparr>headerData := h\<rparr>) = Inr w' \<Longrightarrow> get_content e c = Inr w \<Longrightarrow>
   payload s w' = payload s w"
  by (cases "truthy (text c)")
     (auto simp add: get_content_error_path get_content_normal_path payload_def)

subsection \<open>The dispatcher, step by step\<close>

lemma is_NotificationError_handle: "is_NotificationError (handle ex)"
  by (cases ex) simp_all

text \<open>Once the content is formatted, \<open>send\<close> is the lookup of the destination, the
  serialisation and the request, each of which may fail.\<close>

lemma send_after_format:
  assumes "get_content e c = Inr w"
  shows "send e c r =
     (case get_to e r of
        Inl ex \<Rightarrow> (Inl ex, [])
      | Inr to \<Rightarrow>
     (case json_dumps (payload (name c) w) of
        Inl ex \<Rightarrow> (Inl (handle ex), [])
      | Inr s \<Rightarrow>
          (case requests_post e \<lparr>req_url = to, req_headers = [], req_data = s, req_timeout = 30\<rparr> of
             Inl ex \<Rightarrow>
               (Inl (handle ex),
                [Post \<lparr>req_url = to, req_headers = [], req_data = s, req_timeout = 30\<rparr>])
           | Inr resp \<Rightarrow>
               (case raise_for_status resp of
                  Inl ex \<Rightarrow>
                    (Inl (handle ex),
                     [Post \<lparr>req_url = to, req_headers = [], req_data = s, req_timeout = 30\<rparr>])
                | Inr u \<Rightarrow>
                    (Inr (),
                     [Post \<lparr>req_url = to, req_headers = [], req_data = s, req_timeout = 30\<rparr>,
                      Log (header_data w) to (status_code resp)])))))"
  using assms unfolding send_def Let_def by (simp add: get_subject_name)

lemma send_unresolved:
  assumes "get_to e r = Inl ex"
  shows "send e c r = (Inl ex, [])"
proof -
  obtain w where "get_content e c = Inr w" using get_content_total by blast
  then show ?thesis using assms by (simp add: send_after_format)
qed

text \<open>When the destination resolves and the envelope serialises, exactly one request is made:
  to the destination, with the serialised envelope, no headers and a timeout of 30.\<close>

lemma send_posts_once:
  assumes "get_content e c = Inr w" and "get_to e r = Inr to"
    and "json_dumps (payload (name c) w) = Inr s"
  shows "posts (snd (send e c r)) =
     [\<lparr>req_url = to, req_headers = [], req_data = s, req_timeout = 30\<rparr>]"
  using assms(2,3) by (simp add: send_after_format [OF assms(1)] split: sum.splits)

text \<open>A \<open>bytes\<close> value in \<open>data\<close> makes the serialisation fail, so a content with a CSV export
  on the normal path is never posted.\<close>

lemma json_dumps_csv_payload:
  "json_dumps (payload subject \<lparr>body = PDict [(''description'', PStr d), (''url'', PStr u)],
      header_data = h, data = Some [(fname, PBytes bs)], images = Some imgs\<rparr>) =
   Inl (PyException TypeError ''Object of type bytes is not JSON serializable'')"
  by (simp add: payload_def opt_dict_def opt_strs_def)

lemma send_csv_never_posts:
  assumes "\<not> truthy (text c)" and "truthy (csv c)" and "get_to e r = Inr to"
  shows "send e c r =
     (Inl (PyException NotificationError ''Object of type bytes is not JSON serializable''), [])"
  using assms(2,3)
  by (simp add: send_after_format [OF get_content_normal_path [OF assms(1)]]
      json_dumps_csv_payload)

subsection \<open>The examples, evaluated\<close>

lemma example_images: "map b64encode [ [77, 97, 110], [77] ] = [''TWFu'', ''TQ=='']"
  by (simp add: Let_def b64char_def) code_simp

lemma example_get_content:
  "get_content (example_env post) example_content =
     Inr \<lparr>body = PDict [(''description'', PStr ''weekly numbers''),
                        (''url'', PStr ''https://bi.example.com/d/1'')],
         header_data = Some ''notification_source: Alert'', data = None,
         images = Some [''TWFu'', ''TQ=='']\<rparr>"
  using get_content_normal_path [of example_content "example_env post"] example_images
  by (simp add: example_content_def example_env_def)

lemma example_dumps:
  "json_dumps (payload ''Q1 Sales''
      \<lparr>body = PDict [(''description'', PStr ''weekly numbers''),
                     (''url'', PStr ''https://bi.example.com/d/1'')],
       header_data = h, data = None, images = Some [''TWFu'', ''TQ=='']\<rparr>) = Inr example_wire"
  by (simp add: payload_def opt_dict_def opt_strs_def encode_str_def escape_char_def
      example_wire_def)

lemma get_to_example:
  "get_to (example_env post) example_recipient = Inr (JString ''https://example.com/hook'')"
  by (simp add: get_to_def example_env_def example_recipient_def example_loads_def)

lemma get_to_empty_object:
  \<open>get_to (example_env post) \<lparr>recipient_config_json = ''{}''\<rparr> =
     Inl (PyException KeyError [CHR 0x27, CHR ''t'', CHR ''a'', CHR ''r'', CHR ''g'', CHR ''e'',
                                CHR ''t'', CHR 0x27])\<close>
  by (simp add: get_to_def example_env_def example_loads_def)

lemma get_to_not_json:
  \<open>get_to (example_env post) \<lparr>recipient_config_json = ''not json''\<rparr> =
     Inl (PyException JSONDecodeError ''Expecting value: line 1 column 1 (char 0)'')\<close>
  by (simp add: get_to_def example_env_def example_loads_def)

lemma requests_post_example: "requests_post (example_env post) = post"
  by (simp add: example_env_def)

lemma name_example: "name example_content = ''Q1 Sales''"
  by (simp add: example_content_def)

lemma send_example_200:
  "send (example_env (respond 200 ''OK'')) example_content example_recipient =
     (Inr (), [Post example_request,
               Log (Some ''notification_source: Alert'') (JString ''https://example.com/hook'') 200])"
  by (simp add: send_after_format [OF example_get_content] get_to_example name_example
      example_dumps requests_post_example respond_def raise_for_status_def example_request_def)

lemma dec_500: "dec_nat 500 = ''500''"
  by code_simp

lemma send_example_500:
  "send (example_env (respond 500 ''Internal Server Error'')) example_content example_recipient =
     (Inl (PyException NotificationError
             ''500 Server Error: Internal Server Error for url: https://example.com/hook''),
      [Post example_request])"
  by (simp add: send_after_format [OF example_get_content] get_to_example name_example
      example_dumps requests_post_example respond_def raise_for_status_def example_request_def dec_500)

lemma send_example_fault:
  "send (example_env (raise_errors example_errors)) example_content example_recipient =
     (Inl (PyException NotificationError ''A failed;B failed''), [Post example_request])"
  by (simp add: send_after_format [OF example_get_content] get_to_example name_example
      example_dumps requests_post_example raise_errors_def example_request_def example_errors_def)

lemma json_dumps_error_payload:
  "\<exists>s. json_dumps (payload subject
           \<lparr>body = PStr b, header_data = h, data = None, images = None\<rparr>) = Inr s"
  by (simp add: payload_def opt_dict_def opt_strs_def)

lemma send_example_error_text:
  assumes "truthy (text c)"
  shows "\<exists>req. send (example_env (respond 200 ''OK'')) c example_recipient =
           (Inr (), [Post req, Log None (JString ''https://example.com/hook'') 200])"
proof -
  let ?e = "example_env (respond 200 ''OK'')"
  obtain w where w: "get_content ?e c = Inr w" and h: "header_data w = None"
    and p: "\<exists>s. json_dumps (payload (name c) w) = Inr s"
    using get_content_error_path [OF assms, of ?e] json_dumps_error_payload by fastforce
  from p obtain s where s: "json_dumps (payload (name c) w) = Inr s" ..
  show ?thesis
    by (simp add: send_after_format [OF w] get_to_example s h requests_post_example
        respond_def raise_for_status_def)
qed

section \<open>The claims\<close>

subsection \<open>C1: what \<open>send\<close> raises\<close>

text \<open>
  C1, as amended. The claim says that on every failure of \<open>send\<close>, a malformed recipient
  JSON or a missing target included, the caller receives a \<open>NotificationError\<close>. The lookup
  of the destination is made before \<open>try\<close>, so its own exception leaves \<open>send\<close> as it is.
  What holds: when the destination resolves, every exception that \<open>send\<close> raises is a
  \<open>NotificationError\<close>; when it does not resolve, \<open>send\<close> raises the exception of the lookup.
\<close>

theorem send_failure_is_NotificationError:
  "(get_to e r = Inr to \<and> fst (send e c r) = Inl ex \<longrightarrow> is_NotificationError ex)
   \<and> (get_to e r = Inl ex \<longrightarrow> fst (send e c r) = Inl ex)"
proof -
  obtain w where w: "get_content e c = Inr w" using get_content_total by blast
  have "is_NotificationError ex" if "get_to e r = Inr to" "fst (send e c r) = Inl ex"
    using that is_NotificationError_handle
    by (auto simp add: send_after_format [OF w] split: sum.splits)
  then show ?thesis by (simp add: send_unresolved)
qed

text \<open>An endpoint that answers 500: the destination resolves, \<open>send\<close> fails, and the error is
  a \<open>NotificationError\<close> with the text of the HTTP error.\<close>

theorem send_failure_is_NotificationError_witness:
  "get_to (example_env (respond 500 ''Internal Server Error'')) example_recipient
     = Inr (JString ''https://example.com/hook'')
   \<and> fst (send (example_env (respond 500 ''Internal Server Error'')) example_content
            example_recipient)
     = Inl (PyException NotificationError
              ''500 Server Error: Internal Server Error for url: https://example.com/hook'')
   \<and> is_NotificationError (PyException NotificationError
              ''500 Server Error: Internal Server Error for url: https://example.com/hook'')"
  using send_failure_is_NotificationError
    [of "example_env (respond 500 ''Internal Server Error'')" example_recipient
        "JString ''https://example.com/hook''" example_content
        "PyException NotificationError
           ''500 Server Error: Internal Server Error for url: https://example.com/hook''"]
  by (simp add: get_to_example send_example_500)

text \<open>The claim fails for the recipient configuration \<open>{}\<close>: \<open>send\<close> raises the \<open>KeyError\<close> of
  the subscript, which is not a \<open>NotificationError\<close>.\<close>

theorem missing_target_raises_KeyError:
  \<open>fst (send (example_env (respond 200 ''OK'')) example_content
          \<lparr>recipient_config_json = ''{}''\<rparr>)
     = Inl (PyException KeyError [CHR 0x27, CHR ''t'', CHR ''a'', CHR ''r'', CHR ''g'',
                                  CHR ''e'', CHR ''t'', CHR 0x27])
   \<and> \<not> is_NotificationError
         (PyException KeyError [CHR 0x27, CHR ''t'', CHR ''a'', CHR ''r'', CHR ''g'',
                                CHR ''e'', CHR ''t'', CHR 0x27])\<close>
  by (simp add: send_unresolved [OF get_to_empty_object])

subsection \<open>C3: the error text path\<close>

text \<open>
  C3. When the error text of the content is non-empty, the body of the formatted payload is
  the error template with the error text and the URL of the content in its two places, and
  the payload has neither images nor data, whatever the other fields of the content hold.
\<close>

theorem error_text_payload:
  assumes "text c = Some t" and "t \<noteq> []"
  shows \<open>\<exists>w. get_content e c = Inr w
     \<and> body w = PStr (''\<newline>            Your report/alert was unable to be generated because of the following error: ''
          @ t @ ''\<newline>            Please check your dashboard/chart for errors.\<newline>            "''
          @ url c @ ''"\<newline>            '')
     \<and> images w = None \<and> data w = None\<close>
proof -
  have "truthy (text c)" using assms by simp
  from get_content_error_path [OF this, of e] show ?thesis using assms by simp
qed

text \<open>A content with an error text whose screenshots, CSV export and description are all
  populated.\<close>

theorem error_text_payload_witness:
  \<open>text (example_content\<lparr>text := Some ''timeout'', csv := Some [97, 44, 98]\<rparr>) = Some ''timeout''
   \<and> ''timeout'' \<noteq> []
   \<and> (\<exists>w. get_content (example_env (respond 200 ''OK''))
              (example_content\<lparr>text := Some ''timeout'', csv := Some [97, 44, 98]\<rparr>) = Inr w
        \<and> body w = PStr ''\<newline>            Your report/alert was unable to be generated because of the following error: timeout\<newline>            Please check your dashboard/chart for errors.\<newline>            "https://bi.example.com/d/1"\<newline>            ''
        \<and> images w = None \<and> data w = None)\<close>
  using error_text_payload
    [of "example_content\<lparr>text := Some ''timeout'', csv := Some [97, 44, 98]\<rparr>" "''timeout''"
        "example_env (respond 200 ''OK'')"]
  by (simp add: example_content_def)

subsection \<open>C4: screenshots become base64 strings\<close>

text \<open>
  C4. On the normal path (no error text) the images of the formatted payload are as many as
  the screenshots, the i-th image is the base64 encoding of the i-th screenshot (and decodes
  back to it), and there are no images when the screenshots are absent or empty.
\<close>

theorem images_are_base64_of_screenshots:
  assumes "\<not> truthy (text c)"
  shows "\<exists>w imgs. get_content e c = Inr w \<and> images w = Some imgs
     \<and> length imgs = length (or_empty (screenshots c))
     \<and> (\<forall>i < length imgs.
           imgs ! i = b64encode (or_empty (screenshots c) ! i)
           \<and> b64decode (imgs ! i) = Some (or_empty (screenshots c) ! i))
     \<and> (screenshots c = None \<or> screenshots c = Some [] \<longrightarrow> imgs = [])"
proof -
  have "screenshots c = None \<or> screenshots c = Some [] \<longrightarrow> or_empty (screenshots c) = []"
    by auto
  then show ?thesis
    by (simp add: get_content_normal_path [OF assms] b64decode_b64encode)
qed

text \<open>Two screenshots, of three bytes and of one byte.\<close>

theorem images_are_base64_of_screenshots_witness:
  "\<not> truthy (text example_content)
   \<and> (\<exists>w. get_content (example_env (respond 200 ''OK'')) example_content = Inr w
          \<and> images w = Some [''TWFu'', ''TQ=='']
          \<and> length (or_empty (images w)) = length (or_empty (screenshots example_content)))
   \<and> b64decode ''TWFu'' = Some [77, 97, 110]
   \<and> b64decode ''TQ=='' = Some [77]"
proof -
  have n: "\<not> truthy (text example_content)" by (simp add: example_content_def)
  from images_are_base64_of_screenshots [OF n, of "example_env (respond 200 ''OK'')"]
  obtain w imgs where w: "get_content (example_env (respond 200 ''OK'')) example_content = Inr w"
    and i: "images w = Some imgs"
    and l: "length imgs = length (or_empty (screenshots example_content))"
    and d: "\<forall>i < length imgs. imgs ! i = b64encode (or_empty (screenshots example_content) ! i)
              \<and> b64decode (imgs ! i) = Some (or_empty (screenshots example_content) ! i)"
    by blast
  have v: "imgs = [''TWFu'', ''TQ=='']" using w i by (auto simp add: example_get_content)
  have s: "or_empty (screenshots example_content) = [ [77, 97, 110], [77] ]"
    by (simp add: example_content_def)
  have l2: "length imgs = 2" using v by simp
  have p0: "0 < length imgs" and p1: "1 < length imgs" using l2 by simp_all
  from d [rule_format, OF p0, THEN conjunct2]
  have d0: "b64decode ''TWFu'' = Some [77, 97, 110]"
    unfolding v s by (simp del: b64decode.simps)
  from d [rule_format, OF p1, THEN conjunct2]
  have d1: "b64decode ''TQ=='' = Some [77]"
    unfolding v s by (simp del: b64decode.simps)
  have "length (or_empty (images w)) = length (or_empty (screenshots example_content))"
    using i l by simp
  with n w i v d0 d1 show ?thesis by (simp del: b64decode.simps)
qed

subsection \<open>C5: the aggregated-errors fault\<close>

text \<open>
  C5. If the request that \<open>send\<close> makes raises the aggregated-errors fault, \<open>send\<close> raises a
  \<open>NotificationError\<close> whose message is the messages of the fault's errors, in their order,
  joined by semicolons.
\<close>

theorem aggregated_errors_joined:
  assumes "Post req \<in> set (snd (send e c r))"
    and "requests_post e req = Inl (SupersetErrorsException errors)"
  shows "fst (send e c r) = Inl (PyException NotificationError (join '';'' (map message errors)))"
proof -
  obtain w where w: "get_content e c = Inr w" using get_content_total by blast
  show ?thesis
    using assms by (auto simp add: send_after_format [OF w] split: sum.splits)
qed

text \<open>The errors \<open>A failed\<close> and \<open>B failed\<close> give the message \<open>A failed;B failed\<close>.\<close>

theorem aggregated_errors_joined_witness:
  "Post example_request
     \<in> set (snd (send (example_env (raise_errors example_errors)) example_content
                   example_recipient))
   \<and> requests_post (example_env (raise_errors example_errors)) example_request
     = Inl (SupersetErrorsException example_errors)
   \<and> fst (send (example_env (raise_errors example_errors)) example_content example_recipient)
     = Inl (PyException NotificationError ''A failed;B failed'')"
proof -
  let ?e = "example_env (raise_errors example_errors)"
  have a: "Post example_request \<in> set (snd (send ?e example_content example_recipient))"
    by (simp add: send_example_fault)
  have b: "requests_post ?e example_request = Inl (SupersetErrorsException example_errors)"
    by (simp add: requests_post_example raise_errors_def)
  have "join '';'' (map message example_errors) = ''A failed;B failed''"
    by (simp add: example_errors_def)
  with aggregated_errors_joined [OF a b] a b show ?thesis by simp
qed

subsection \<open>C6: no request without a destination\<close>

text \<open>
  C6. When the recipient configuration is not JSON, or is a JSON object that has no key
  \<open>target\<close>, \<open>send\<close> raises an error and issues no POST request.
\<close>

theorem no_post_when_destination_unresolved:
  assumes "json_loads e (recipient_config_json r) = Inl msg
           \<or> (\<exists>kvs. json_loads e (recipient_config_json r) = Inr (JObject kvs)
                    \<and> map_of kvs ''target'' = None)"
  shows "(\<exists>ex. fst (send e c r) = Inl ex) \<and> posts (snd (send e c r)) = []"
proof -
  from assms have "\<exists>ex. get_to e r = Inl ex"
    by (auto simp add: get_to_def)
  then obtain ex where "get_to e r = Inl ex" ..
  then have "send e c r = (Inl ex, [])" by (rule send_unresolved)
  then show ?thesis by simp
qed

text \<open>The configuration \<open>{}\<close>, an object without \<open>target\<close>, and the configuration
  \<open>not json\<close>, which does not parse.\<close>

theorem no_post_when_destination_unresolved_witness:
  \<open>json_loads (example_env (respond 200 ''OK'')) ''{}'' = Inr (JObject [])
   \<and> map_of ([] :: (string \<times> json) list) ''target'' = None
   \<and> (\<exists>ex. fst (send (example_env (respond 200 ''OK'')) example_content
                  \<lparr>recipient_config_json = ''{}''\<rparr>) = Inl ex)
   \<and> posts (snd (send (example_env (respond 200 ''OK'')) example_content
                  \<lparr>recipient_config_json = ''{}''\<rparr>)) = []
   \<and> json_loads (example_env (respond 200 ''OK'')) ''not json''
       = Inl ''Expecting value: line 1 column 1 (char 0)''
   \<and> (\<exists>ex. fst (send (example_env (respond 200 ''OK'')) example_content
                  \<lparr>recipient_config_json = ''not json''\<rparr>) = Inl ex)
   \<and> posts (snd (send (example_env (respond 200 ''OK'')) example_content
                  \<lparr>recipient_config_json = ''not json''\<rparr>)) = []\<close>
proof -
  let ?e = "example_env (respond 200 ''OK'')"
  have a: \<open>json_loads ?e ''{}'' = Inr (JObject [])\<close>
    by (simp add: example_env_def example_loads_def)
  have b: \<open>json_loads ?e ''not json'' = Inl ''Expecting value: line 1 column 1 (char 0)''\<close>
    by (simp add: example_env_def example_loads_def)
  from no_post_when_destination_unresolved
    [where e = ?e and r = \<open>\<lparr>recipient_config_json = ''{}''\<rparr>\<close> and c = example_content]
  have \<open>(\<exists>ex. fst (send ?e example_content \<lparr>recipient_config_json = ''{}''\<rparr>) = Inl ex)
        \<and> posts (snd (send ?e example_content \<lparr>recipient_config_json = ''{}''\<rparr>)) = []\<close>
    by (simp add: a)
  moreover
  from no_post_when_destination_unresolved
    [where e = ?e and r = \<open>\<lparr>recipient_config_json = ''not json''\<rparr>\<close> and c = example_content
       and msg = "''Expecting value: line 1 column 1 (char 0)''"]
  have \<open>(\<exists>ex. fst (send ?e example_content \<lparr>recipient_config_json = ''not json''\<rparr>) = Inl ex)
        \<and> posts (snd (send ?e example_content \<lparr>recipient_config_json = ''not json''\<rparr>)) = []\<close>
    by (simp add: b)
  ultimately show ?thesis using a b by simp
qed

subsection \<open>C7: the CSV export\<close>

text \<open>
  C7, as amended. The claim says that the data of the formatted payload map the file name to
  the CSV bytes whenever the content has a CSV export. The source tests \<open>if self._content.csv\<close>,
  which an empty byte buffer fails. What holds on the normal path: when the CSV export is
  present and not empty, the data are the one entry from \<open>name.csv\<close> to exactly these bytes;
  when it is absent or empty, the data are absent.
\<close>

theorem csv_data_when_nonempty:
  assumes "\<not> truthy (text c)"
  shows "\<exists>w. get_content e c = Inr w
     \<and> (\<forall>bs. csv c = Some bs \<and> bs \<noteq> [] \<longrightarrow> data w = Some [(name c @ ''.csv'', PBytes bs)])
     \<and> (csv c = None \<or> csv c = Some [] \<longrightarrow> data w = None)"
  by (auto simp add: get_content_normal_path [OF assms])

text \<open>The content named \<open>Q1 Sales\<close> with the export \<open>a,b\<close>.\<close>

theorem csv_data_when_nonempty_witness:
  "\<not> truthy (text (example_content\<lparr>csv := Some [97, 44, 98]\<rparr>))
   \<and> csv (example_content\<lparr>csv := Some [97, 44, 98]\<rparr>) = Some [97, 44, 98]
   \<and> [97, 44, 98] \<noteq> ([] :: byte list)
   \<and> (\<exists>w. get_content (example_env (respond 200 ''OK''))
              (example_content\<lparr>csv := Some [97, 44, 98]\<rparr>) = Inr w
          \<and> data w = Some [(''Q1 Sales.csv'', PBytes [97, 44, 98])])"
proof -
  let ?c = "example_content\<lparr>csv := Some [97, 44, 98]\<rparr>"
  have n: "\<not> truthy (text ?c)" by (simp add: example_content_def)
  from csv_data_when_nonempty [OF n, of "example_env (respond 200 ''OK'')"]
  obtain w where w: "get_content (example_env (respond 200 ''OK'')) ?c = Inr w"
    and d: "\<forall>bs. csv ?c = Some bs \<and> bs \<noteq> [] \<longrightarrow> data w = Some [(name ?c @ ''.csv'', PBytes bs)]"
    by blast
  from d have "data w = Some [(name ?c @ ''.csv'', PBytes [97, 44, 98])]" by simp
  then have "data w = Some [(''Q1 Sales.csv'', PBytes [97, 44, 98])]"
    by (simp add: example_content_def)
  with n w show ?thesis by auto
qed

text \<open>The claim fails for a content whose CSV export is the empty byte buffer: it is present,
  and the data are absent.\<close>

theorem empty_csv_gives_no_data:
  "csv (example_content\<lparr>csv := Some []\<rparr>) = Some []
   \<and> \<not> truthy (text (example_content\<lparr>csv := Some []\<rparr>))
   \<and> get_content (example_env (respond 200 ''OK'')) (example_content\<lparr>csv := Some []\<rparr>) =
       Inr \<lparr>body = PDict [(''description'', PStr ''weekly numbers''),
                          (''url'', PStr ''https://bi.example.com/d/1'')],
           header_data = Some ''notification_source: Alert'', data = None,
           images = Some [''TWFu'', ''TQ=='']\<rparr>"
  using get_content_normal_path
    [of "example_content\<lparr>csv := Some []\<rparr>" "example_env (respond 200 ''OK'')"] example_images
  by (simp add: example_content_def example_env_def)

subsection \<open>C8: header data stay off the wire\<close>

text \<open>
  C8. Two contents that differ only in their header data make \<open>send\<close> issue the same POST
  requests: same destination, same serialised body, same headers and timeout.
\<close>

theorem header_data_not_posted:
  "posts (snd (send e (c\<lparr>headerData := h\<rparr>) r)) = posts (snd (send e c r))"
proof -
  obtain w where w: "get_content e c = Inr w" using get_content_total by blast
  obtain w' where w': "get_content e (c\<lparr>headerData := h\<rparr>) = Inr w'"
    using get_content_total by blast
  have p: "payload (name c) w' = payload (name c) w"
    using w' w by (rule get_content_headerData)
  show ?thesis
    using p by (simp add: send_after_format [OF w] send_after_format [OF w'] split: sum.splits)
qed

text \<open>The example content with and without its header data: one request, with the same body;
  the header data appear in the log record only.\<close>

theorem header_data_not_posted_witness:
  "posts (snd (send (example_env (respond 200 ''OK'')) (example_content\<lparr>headerData := None\<rparr>)
                example_recipient)) = [example_request]
   \<and> posts (snd (send (example_env (respond 200 ''OK'')) example_content example_recipient))
       = [example_request]
   \<and> logs (snd (send (example_env (respond 200 ''OK'')) example_content example_recipient))
       = [(Some ''notification_source: Alert'', JString ''https://example.com/hook'', 200)]"
  using header_data_not_posted
    [where e = "example_env (respond 200 ''OK'')" and c = example_content and h = None
       and r = example_recipient]
  by (simp add: send_example_200)

subsection \<open>C9: the request\<close>

text \<open>
  C9. The claim says that every delivery serialises the envelope, \<open>data\<close> included, and makes
  one POST request with it. For a content with a CSV export the envelope holds a \<open>bytes\<close>
  value, which \<open>json.dumps\<close> rejects: \<open>send\<close> raises a \<open>NotificationError\<close> and makes no
  request, although the destination resolves and the endpoint would answer 200.
\<close>

theorem send_with_csv_makes_no_request:
  "send (example_env (respond 200 ''OK'')) (example_content\<lparr>csv := Some [97, 44, 98]\<rparr>)
        example_recipient =
     (Inl (PyException NotificationError ''Object of type bytes is not JSON serializable''), [])"
proof -
  have "\<not> truthy (text (example_content\<lparr>csv := Some [97, 44, 98]\<rparr>))"
    and "truthy (csv (example_content\<lparr>csv := Some [97, 44, 98]\<rparr>))"
    by (simp_all add: example_content_def)
  then show ?thesis by (rule send_csv_never_posts) (rule get_to_example)
qed

subsection \<open>C10: no header data on the error text path\<close>

text \<open>
  C10. When the error text of the content is non-empty, the header data of the formatted
  payload are \<open>None\<close>, whatever the header data of the content, and so every log record that
  \<open>send\<close> writes for this content has \<open>None\<close> as its header data.
\<close>

theorem error_path_header_data_None:
  assumes "truthy (text c)"
  shows "(\<exists>w. get_content e c = Inr w \<and> header_data w = None)
         \<and> (\<forall>rec \<in> set (logs (snd (send e c r))). fst rec = None)"
proof -
  obtain w where w: "get_content e c = Inr w" and h: "header_data w = None"
    using get_content_error_path [OF assms, of e] by simp
  show ?thesis
    by (simp add: w h send_after_format [OF w] split: sum.splits)
qed

text \<open>The example content with the error text \<open>timeout\<close>, delivered to an endpoint that
  answers 200: the content carries header data, the one log record has none.\<close>

theorem error_path_header_data_None_witness:
  "truthy (text (example_content\<lparr>text := Some ''timeout''\<rparr>))
   \<and> headerData (example_content\<lparr>text := Some ''timeout''\<rparr>) = Some ''notification_source: Alert''
   \<and> (\<exists>w. get_content (example_env (respond 200 ''OK''))
              (example_content\<lparr>text := Some ''timeout''\<rparr>) = Inr w \<and> header_data w = None)
   \<and> logs (snd (send (example_env (respond 200 ''OK''))
                   (example_content\<lparr>text := Some ''timeout''\<rparr>) example_recipient))
       = [(None, JString ''https://example.com/hook'', 200)]"
proof -
  let ?c = "example_content\<lparr>text := Some ''timeout''\<rparr>"
  let ?e = "example_env (respond 200 ''OK'')"
  have t: "truthy (text ?c)" by simp
  from send_example_error_text [OF t]
  have l: "logs (snd (send ?e ?c example_recipient))
             = [(None, JString ''https://example.com/hook'', 200)]"
    by auto
  from error_path_header_data_None [OF t, of ?e example_recipient] t l
  show ?thesis by (simp add: example_content_def)
qed

end
